theory Spec2Isabelle
  imports Main "HOL-Library.Sublist" "HOL-Library.List_Lexorder" "HOL-Library.Char_ord"
begin

section \<open>JavaScript values\<close>

text \<open>
  The values that \<^verbatim>\<open>response.json()\<close> can produce, and \<^verbatim>\<open>undefined\<close>, which a read of
  a property that an object does not have returns. Numbers are modelled as integers
  (non-integer numbers, and the infinities that an over-long literal parses to, are
  outside the model). An object is the association list of its own properties, in the
  order \<^verbatim>\<open>Object.keys\<close> lists them, each key once.
\<close>

datatype json =
    JUndefined
  | JNull
  | JBool bool
  | JNum int
  | JStr string
  | JArr "json list"
  | JObj "(string \<times> json) list"

type_synonym row = "(string \<times> json) list"

text \<open>\<^verbatim>\<open>row[key]\<close>: the value of the property, \<^verbatim>\<open>undefined\<close> when the row has none
  (properties inherited from \<^verbatim>\<open>Object.prototype\<close> are outside the model).\<close>

definition get :: "row \<Rightarrow> string \<Rightarrow> json" where
  "get r k = (case map_of r k of None \<Rightarrow> JUndefined | Some v \<Rightarrow> v)"

definition Object_keys :: "row \<Rightarrow> string list" where
  "Object_keys r = map fst r"

definition Object_values :: "row \<Rightarrow> json list" where
  "Object_values r = map snd r"

text \<open>\<^verbatim>\<open>value == null\<close> holds of \<^verbatim>\<open>null\<close> and of \<^verbatim>\<open>undefined\<close>.\<close>

fun eq_null :: "json \<Rightarrow> bool" where
  "eq_null JUndefined = True"
| "eq_null JNull = True"
| "eq_null _ = False"

text \<open>Truthiness, as \<^verbatim>\<open>!\<close>, \<^verbatim>\<open>&&\<close>, \<^verbatim>\<open>||\<close> and \<^verbatim>\<open>if\<close> test it.\<close>

fun truthy :: "json \<Rightarrow> bool" where
  "truthy JUndefined = False"
| "truthy JNull = False"
| "truthy (JBool b) = b"
| "truthy (JNum n) = (n \<noteq> 0)"
| "truthy (JStr s) = (s \<noteq> [])"
| "truthy (JArr _) = True"
| "truthy (JObj _) = True"

text \<open>\<^verbatim>\<open>a || b\<close>\<close>

definition js_or :: "json \<Rightarrow> json \<Rightarrow> json" where
  "js_or a b = (if truthy a then a else b)"

subsection \<open>Conversion to string\<close>

definition digit_char :: "nat \<Rightarrow> char" where
  "digit_char d = char_of (48 + d)"

fun string_of_nat :: "nat \<Rightarrow> string" where
  "string_of_nat n =
     (if n < 10 then [digit_char n] else string_of_nat (n div 10) @ [digit_char (n mod 10)])"

declare string_of_nat.simps [simp del]

definition string_of_int :: "int \<Rightarrow> string" where
  "string_of_int i = (if i < 0 then CHR ''-'' # string_of_nat (nat (- i)) else string_of_nat (nat i))"

text \<open>\<^verbatim>\<open>Array.prototype.join\<close> with separator \<^verbatim>\<open>,\<close> over the strings of the elements.\<close>

fun join_comma :: "string list \<Rightarrow> string" where
  "join_comma [] = []"
| "join_comma [s] = s"
| "join_comma (s # t # ss) = s @ '','' @ join_comma (t # ss)"

text \<open>\<^verbatim>\<open>String(value)\<close>. An array is the join of its elements, where \<^verbatim>\<open>null\<close> and
  \<^verbatim>\<open>undefined\<close> elements give the empty string; a plain object is \<^verbatim>\<open>[object Object]\<close>.\<close>

fun String :: "json \<Rightarrow> string" where
  "String JUndefined = ''undefined''"
| "String JNull = ''null''"
| "String (JBool b) = (if b then ''true'' else ''false'')"
| "String (JNum n) = string_of_int n"
| "String (JStr s) = s"
| "String (JArr xs) = join_comma (map (\<lambda>x. if eq_null x then [] else String x) xs)"
| "String (JObj _) = ''[object Object]''"

text \<open>\<^verbatim>\<open>toLowerCase\<close> on the ASCII letters (a \<^typ>\<open>char\<close> is a byte).\<close>

definition lower_char :: "char \<Rightarrow> char" where
  "lower_char c = (if CHR ''A'' \<le> c \<and> c \<le> CHR ''Z'' then char_of (of_char c + (32::nat)) else c)"

definition toLowerCase :: "string \<Rightarrow> string" where
  "toLowerCase s = map lower_char s"

text \<open>\<^verbatim>\<open>s.includes(t)\<close>: \<open>t\<close> occurs in \<open>s\<close> as a contiguous substring.\<close>

fun str_includes :: "string \<Rightarrow> string \<Rightarrow> bool" where
  "str_includes [] t = (t = [])"
| "str_includes (c # cs) t = (prefix t (c # cs) \<or> str_includes cs t)"

section \<open>DataTable.jsx\<close>

text \<open>
  The component's state (\<^verbatim>\<open>useState\<close>) and the values it derives from the state and
  from \<^verbatim>\<open>tableData\<close> at each render. \<^verbatim>\<open>tableData\<close> is \<^verbatim>\<open>data\<close> when that is an
  array and the empty array otherwise; its elements are row objects.
\<close>

datatype direction = Asc | Desc

record sortConfig =
  key :: "string option"
  direction :: direction

record table_state =
  sortConfig :: sortConfig
  searchTerm :: string
  currentPage :: nat
  itemsPerPage :: nat

definition initial_table_state :: table_state where
  "initial_table_state =
     \<lparr>sortConfig = \<lparr>key = None, direction = Asc\<rparr>, searchTerm = [], currentPage = 1,
      itemsPerPage = 10\<rparr>"

text \<open>\<^verbatim>\<open>Object.keys(tableData[0])\<close>; the component returns its "No data available" view
  before this line when \<^verbatim>\<open>tableData\<close> is empty.\<close>

fun columns :: "row list \<Rightarrow> string list" where
  "columns [] = []"
| "columns (r # rs) = Object_keys r"

text \<open>\<^verbatim>\<open>typeof value === 'number'\<close>, and the number that such a value is.\<close>

fun is_number :: "json \<Rightarrow> bool" where
  "is_number (JNum _) = True"
| "is_number _ = False"

fun number_of :: "json \<Rightarrow> int" where
  "number_of (JNum n) = n"
| "number_of _ = 0"


text \<open>The comparison function handed to \<^verbatim>\<open>sort\<close>.\<close>

definition compare_rows :: "string \<Rightarrow> direction \<Rightarrow> row \<Rightarrow> row \<Rightarrow> int" where
  "compare_rows k d a b =
     (let aValue = get a k; bValue = get b k in
      if eq_null aValue \<and> eq_null bValue then 0
      else if eq_null aValue then (if d = Asc then 1 else - 1)
      else if eq_null bValue then (if d = Asc then - 1 else 1)
      else if is_number aValue \<and> is_number bValue
        then (if d = Asc then number_of aValue - number_of bValue
              else number_of bValue - number_of aValue)
      else
        (let aStr = toLowerCase (String aValue); bStr = toLowerCase (String bValue) in
         if aStr < bStr then (if d = Asc then - 1 else 1)
         else if aStr > bStr then (if d = Asc then 1 else - 1)
         else 0))"

text \<open>
  \<^verbatim>\<open>[...tableData].sort(compare)\<close>: a stable sort of a copy of the array, modelled as
  the stable insertion sort (an element goes before the first element of the sorted rest
  that it does not compare greater than). For a comparison function that orders the
  elements consistently every stable sort gives this result; for the others the
  language leaves the order to the engine, and the model takes the insertion sort's.
\<close>

fun insert_by :: "('a \<Rightarrow> 'a \<Rightarrow> int) \<Rightarrow> 'a \<Rightarrow> 'a list \<Rightarrow> 'a list" where
  "insert_by cmp x [] = [x]"
| "insert_by cmp x (y # ys) = (if cmp x y \<le> 0 then x # y # ys else y # insert_by cmp x ys)"

definition js_sort :: "('a \<Rightarrow> 'a \<Rightarrow> int) \<Rightarrow> 'a list \<Rightarrow> 'a list" where
  "js_sort cmp xs = foldr (insert_by cmp) xs []"

text \<open>\<^verbatim>\<open>!sortConfig.key\<close> holds of \<^verbatim>\<open>null\<close> and of the empty string.\<close>

definition sortedData :: "row list \<Rightarrow> sortConfig \<Rightarrow> row list" where
  "sortedData tableData cfg =
     (case key cfg of
        None \<Rightarrow> tableData
      | Some k \<Rightarrow> if k = [] then tableData else js_sort (compare_rows k (direction cfg)) tableData)"

text \<open>The test of the filter on one row: \<^verbatim>\<open>Object.values(row).some(value =>
  String(value).toLowerCase().includes(searchTerm.toLowerCase()))\<close>.\<close>

definition row_matches :: "string \<Rightarrow> row \<Rightarrow> bool" where
  "row_matches search r =
     list_ex (\<lambda>v. str_includes (toLowerCase (String v)) (toLowerCase search)) (Object_values r)"

definition filteredData :: "row list \<Rightarrow> table_state \<Rightarrow> row list" where
  "filteredData tableData st =
     (if searchTerm st = [] then sortedData tableData (sortConfig st)
      else filter (row_matches (searchTerm st)) (sortedData tableData (sortConfig st)))"

text \<open>\<^verbatim>\<open>Math.ceil(filteredData.length / itemsPerPage)\<close>\<close>

definition totalPages :: "row list \<Rightarrow> table_state \<Rightarrow> nat" where
  "totalPages tableData st =
     (length (filteredData tableData st) + itemsPerPage st - 1) div itemsPerPage st"

text \<open>\<^verbatim>\<open>currentPage\<close> is 1 at the start and stays at least 1 (the buttons set it to
  \<^verbatim>\<open>Math.max(1, currentPage - 1)\<close>, to at most \<^verbatim>\<open>totalPages\<close> or to a page number
  shown); \<^verbatim>\<open>slice(startIndex, startIndex + itemsPerPage)\<close> is then a drop and a take.\<close>

definition startIndex :: "table_state \<Rightarrow> nat" where
  "startIndex st = (currentPage st - 1) * itemsPerPage st"

definition paginatedData :: "row list \<Rightarrow> table_state \<Rightarrow> row list" where
  "paginatedData tableData st =
     take (itemsPerPage st) (drop (startIndex st) (filteredData tableData st))"

definition handleSort :: "string \<Rightarrow> table_state \<Rightarrow> table_state" where
  "handleSort column st =
     st\<lparr>sortConfig :=
          \<lparr>key = Some column,
           direction =
             (if key (sortConfig st) = Some column \<and> direction (sortConfig st) = Asc
              then Desc else Asc)\<rparr>\<rparr>"



section \<open>Page.jsx\<close>

subsection \<open>Messages, chats and the page state\<close>

text \<open>
  A user message is \<^verbatim>\<open>{role: 'user', content, timestamp}\<close>; an assistant message is the
  object that \<^verbatim>\<open>handleSendMessage\<close> builds. Fields copied from the payload hold whatever
  JSON value the payload had.
\<close>

record aiMessage =
  message :: json
  timestamp :: string
  resolvable :: bool
  result_type :: json
  query :: json
  chart_data :: json
  result :: json
  workflow_steps :: json
  execution_time :: json

datatype chat_message =
    User string string
  | Assistant aiMessage

fun role :: "chat_message \<Rightarrow> string" where
  "role (User content ts) = ''user''"
| "role (Assistant m) = ''assistant''"

record chat =
  chat_id :: string
  title :: string
  messages :: "chat_message list"

record page =
  chatHistory :: "chat list"
  currentChatId :: string
  isLoading :: bool
  input :: string

text \<open>The page once its first effect has run: the default chat, which is the current
  one, no request outstanding, nothing typed.\<close>

definition initial_page :: page where
  "initial_page =
     \<lparr>chatHistory = [\<lparr>chat_id = ''1'', title = ''DataWare Assistant'', messages = []\<rparr>],
      currentChatId = ''1'', isLoading = False, input = []\<rparr>"

subsection \<open>Building the assistant message from the payload\<close>

datatype js_error = TypeError | FetchFailed | BadStatus nat | SyntaxError

text \<open>
  \<^verbatim>\<open>payload.name\<close> for the names this code reads. On \<^verbatim>\<open>null\<close> the read throws (see
  \<open>build_aiMessage\<close>); on a number, a string, a boolean or an array none of these names is a
  property, so the read gives \<^verbatim>\<open>undefined\<close>.
\<close>

fun payload_prop :: "json \<Rightarrow> string \<Rightarrow> json" where
  "payload_prop (JObj r) k = get r k"
| "payload_prop _ k = JUndefined"

definition build_aiMessage :: "string \<Rightarrow> json \<Rightarrow> js_error + aiMessage" where
  "build_aiMessage now payload =
     (if eq_null payload then Inl TypeError
      else if truthy (payload_prop payload ''success'') \<and> truthy (payload_prop payload ''resolvable'')
      then Inr \<lparr>message = js_or (payload_prop payload ''message'') (JStr ''Here is the result of your query:''),
                timestamp = now,
                resolvable = True,
                result_type = js_or (payload_prop payload ''result_type'') (JStr ''unknown''),
                query = js_or (payload_prop payload ''query'') (JStr []),
                chart_data = js_or (payload_prop payload ''chart_data'') JNull,
                result = js_or (payload_prop payload ''result'') JNull,
                workflow_steps = js_or (payload_prop payload ''workflow_steps'') (JArr []),
                execution_time = js_or (payload_prop payload ''execution_time'') (JNum 0)\<rparr>
      else if truthy (payload_prop payload ''success'') \<and> \<not> truthy (payload_prop payload ''resolvable'')
      then Inr \<lparr>message = js_or (payload_prop payload ''message'')
                            (JStr ''I couldn't resolve that query with the available data.''),
                timestamp = now,
                resolvable = False,
                result_type = JNull,
                query = js_or (payload_prop payload ''query'') (JStr []),
                chart_data = JNull,
                result = JNull,
                workflow_steps = js_or (payload_prop payload ''workflow_steps'') (JArr []),
                execution_time = js_or (payload_prop payload ''execution_time'') (JNum 0)\<rparr>
      else Inr \<lparr>message = js_or (payload_prop payload ''message'')
                            (JStr ''Sorry, I encountered an error while processing your request.''),
                timestamp = now,
                resolvable = False,
                result_type = JNull,
                query = JStr [],
                chart_data = JNull,
                result = JNull,
                workflow_steps = JArr [],
                execution_time = js_or (payload_prop payload ''execution_time'') (JNum 0)\<rparr>)"

text \<open>The message of the \<^verbatim>\<open>catch\<close> block.\<close>

definition errorMessage :: "string \<Rightarrow> aiMessage" where
  "errorMessage now =
     \<lparr>message = JStr ''Sorry, I couldn't connect to the backend service. Please make sure the query generation service is running on port 5001.'',
      timestamp = now,
      resolvable = False,
      result_type = JNull,
      query = JStr [],
      chart_data = JNull,
      result = JNull,
      workflow_steps = JArr [],
      execution_time = JNum 0\<rparr>"

subsection \<open>handleNewChat, handleSubmit, handleSendMessage\<close>

text \<open>The updater \<^verbatim>\<open>prev.map(chat => chat.id === currentChatId ? {...chat, messages:
  [...chat.messages, m]} : chat)\<close> that the handler hands to \<^verbatim>\<open>setChatHistory\<close>.\<close>

definition append_message :: "string \<Rightarrow> chat_message \<Rightarrow> chat list \<Rightarrow> chat list" where
  "append_message cid m prev =
     map (\<lambda>chat. if chat_id chat = cid then chat\<lparr>messages := messages chat @ [m]\<rparr> else chat) prev"

definition set_title :: "string \<Rightarrow> string \<Rightarrow> chat list \<Rightarrow> chat list" where
  "set_title cid messageContent prev =
     map (\<lambda>chat. if chat_id chat = cid
                 then chat\<lparr>title := take 30 messageContent
                                      @ (if length messageContent > 30 then ''...'' else [])\<rparr>
                 else chat) prev"

text \<open>\<^verbatim>\<open>chatHistory.find((chat) => chat.id === currentChatId)\<close>\<close>

definition find_chat :: "string \<Rightarrow> chat list \<Rightarrow> chat option" where
  "find_chat cid h = find (\<lambda>chat. chat_id chat = cid) h"

text \<open>
  What the handler does before it waits for the response: the user message is appended,
  the title is set when the chat it found in the rendered \<^verbatim>\<open>chatHistory\<close> has no message,
  and \<^verbatim>\<open>isLoading\<close> is raised. The early return on a falsy \<^verbatim>\<open>currentChatId\<close> is in
  \<open>handleSendMessage\<close> below.
\<close>

definition handleSendMessage_begin :: "string \<Rightarrow> string \<Rightarrow> page \<Rightarrow> page" where
  "handleSendMessage_begin now messageContent s =
     (let cid = currentChatId s;
          h1 = append_message cid (User messageContent now) (chatHistory s);
          h2 = (if (case find_chat cid (chatHistory s) of
                      None \<Rightarrow> False
                    | Some chat \<Rightarrow> length (messages chat) = 0)
                then set_title cid messageContent h1 else h1)
      in s\<lparr>chatHistory := h2, isLoading := True\<rparr>)"

text \<open>
  How the request ends: \<^verbatim>\<open>fetch\<close> rejects, or it gives a response with a status and a
  body that \<^verbatim>\<open>response.json()\<close> parses or rejects.
\<close>

datatype response_body = Malformed | Parsed json

datatype fetch_result = Rejected | Response nat response_body

definition response_ok :: "nat \<Rightarrow> bool" where
  "response_ok status = (200 \<le> status \<and> status \<le> 299)"

text \<open>The \<^verbatim>\<open>try\<close> block after the \<^verbatim>\<open>await\<close>: every throw comes before the block's
  \<^verbatim>\<open>setChatHistory\<close>, so it leaves the history as it was.\<close>

definition try_block :: "string \<Rightarrow> string \<Rightarrow> fetch_result \<Rightarrow> chat list \<Rightarrow> js_error + chat list" where
  "try_block now cid res prev =
     (case res of
        Rejected \<Rightarrow> Inl FetchFailed
      | Response status body \<Rightarrow>
          if \<not> response_ok status then Inl (BadStatus status)
          else (case body of
                  Malformed \<Rightarrow> Inl SyntaxError
                | Parsed payload \<Rightarrow>
                    (case build_aiMessage now payload of
                       Inl e \<Rightarrow> Inl e
                     | Inr aiMessage \<Rightarrow> Inr (append_message cid (Assistant aiMessage) prev))))"

text \<open>The rest of the handler, with \<^verbatim>\<open>catch\<close> and \<^verbatim>\<open>finally\<close>; \<open>cid\<close> is the
  \<^verbatim>\<open>currentChatId\<close> that the handler's closure holds.\<close>

definition handleSendMessage_settle :: "string \<Rightarrow> string \<Rightarrow> fetch_result \<Rightarrow> page \<Rightarrow> page" where
  "handleSendMessage_settle now cid res s =
     (let h = (case try_block now cid res (chatHistory s) of
                 Inr h' \<Rightarrow> h'
               | Inl error \<Rightarrow> append_message cid (Assistant (errorMessage now)) (chatHistory s))
      in s\<lparr>chatHistory := h, isLoading := False\<rparr>)"

text \<open>What the user can do while the request is outstanding (\<^verbatim>\<open>handleSubmit\<close> returns
  at once while \<^verbatim>\<open>isLoading\<close>): open a new chat, or select a chat of the sidebar.\<close>

datatype ui_event = NewChat string | SelectChat string

definition handleNewChat :: "string \<Rightarrow> page \<Rightarrow> page" where
  "handleNewChat newChatId s =
     s\<lparr>chatHistory := \<lparr>chat_id = newChatId, title = ''New Chat'', messages = []\<rparr> # chatHistory s,
       currentChatId := newChatId\<rparr>"

fun ui_step :: "page \<Rightarrow> ui_event \<Rightarrow> page" where
  "ui_step s (NewChat newChatId) = handleNewChat newChatId s"
| "ui_step s (SelectChat cid) = s\<lparr>currentChatId := cid\<rparr>"

text \<open>
  The whole handler: \<open>now\<close> and \<open>now'\<close> are the two readings of the clock, \<open>res\<close> the
  outcome of the request and \<open>evs\<close> the events handled while it was outstanding.
\<close>

definition handleSendMessage ::
  "string \<Rightarrow> string \<Rightarrow> fetch_result \<Rightarrow> ui_event list \<Rightarrow> string \<Rightarrow> page \<Rightarrow> page" where
  "handleSendMessage now now' res evs messageContent s =
     (if currentChatId s = [] then s
      else handleSendMessage_settle now' (currentChatId s) res
             (foldl ui_step (handleSendMessage_begin now messageContent s) evs))"

text \<open>\<^verbatim>\<open>String.prototype.trim\<close> on the ASCII white space.\<close>

definition is_space :: "char \<Rightarrow> bool" where
  "is_space c = (c \<in> set [CHR '' '', CHR 0x09, CHR 0x0A, CHR 0x0B, CHR 0x0C, CHR 0x0D])"

definition trim :: "string \<Rightarrow> string" where
  "trim s = rev (dropWhile is_space (rev (dropWhile is_space s)))"

definition handleSubmit ::
  "string \<Rightarrow> string \<Rightarrow> fetch_result \<Rightarrow> ui_event list \<Rightarrow> page \<Rightarrow> page" where
  "handleSubmit now now' res evs s =
     (if trim (input s) = [] \<or> isLoading s then s
      else (handleSendMessage now now' res evs (trim (input s)) s)\<lparr>input := []\<rparr>)"

subsection \<open>TypingText and AssistantMessage\<close>

text \<open>\<^verbatim>\<open>text.split(' ')\<close>: the pieces between single spaces, at least one piece.\<close>

fun split_space :: "string \<Rightarrow> string list" where
  "split_space [] = [[]]"
| "split_space (c # cs) =
     (if c = CHR '' '' then [] # split_space cs
      else (case split_space cs of [] \<Rightarrow> [[c]] | w # ws \<Rightarrow> (c # w) # ws))"

text \<open>The \<^verbatim>\<open>text\<close> prop: \<^verbatim>\<open>message.message || 'Here is the result of your query:'\<close>.
  \<^verbatim>\<open>text.split\<close> exists on strings only; on any other truthy value the call throws.\<close>

definition typing_text :: "aiMessage \<Rightarrow> js_error + string" where
  "typing_text m =
     (if truthy (message m)
      then (case message m of JStr s \<Rightarrow> Inr s | _ \<Rightarrow> Inl TypeError)
      else Inr ''Here is the result of your query:'')"







section \<open>Predicates of the specification\<close>



text \<open>A network-level failure: the request threw, the status is not 2xx, or the body
  of a 2xx response is not JSON.\<close>

fun network_failure :: "fetch_result \<Rightarrow> bool" where
  "network_failure Rejected = True"
| "network_failure (Response status body) = (\<not> response_ok status \<or> body = Malformed)"

text \<open>The assistant message that a request with outcome \<open>res\<close> ends in: the one built
  from the payload, and the connectivity message wherever the \<^verbatim>\<open>try\<close> block throws.\<close>

definition reply :: "string \<Rightarrow> fetch_result \<Rightarrow> aiMessage" where
  "reply now res =
     (case res of
        Rejected \<Rightarrow> errorMessage now
      | Response status body \<Rightarrow>
          if \<not> response_ok status then errorMessage now
          else (case body of
                  Malformed \<Rightarrow> errorMessage now
                | Parsed payload \<Rightarrow>
                    (case build_aiMessage now payload of
                       Inl e \<Rightarrow> errorMessage now
                     | Inr m \<Rightarrow> m)))"

text \<open>The title that a first message gives its chat.\<close>

definition first_title :: "string \<Rightarrow> string" where
  "first_title messageContent =
     take 30 messageContent @ (if 30 < length messageContent then ''...'' else [])"

section \<open>Properties of the table\<close>

subsection \<open>The sort\<close>

lemma str_includes_sublist: "str_includes s t \<longleftrightarrow> sublist t s"
  by (induction s) (auto simp: sublist_Cons_right)

lemma set_insert_by: "set (insert_by cmp x ys) = insert x (set ys)"
  by (induction ys) auto

lemma set_js_sort: "set (js_sort cmp xs) = set xs"
  by (induction xs) (auto simp: js_sort_def set_insert_by)

lemma length_insert_by: "length (insert_by cmp x ys) = Suc (length ys)"
  by (induction ys) auto

lemma length_js_sort: "length (js_sort cmp xs) = length xs"
  by (induction xs) (auto simp: js_sort_def length_insert_by)

lemma js_sort_Cons: "js_sort cmp (x # xs) = insert_by cmp x (js_sort cmp xs)"
  by (simp add: js_sort_def)












text \<open>On a column of numbers the ascending sort gives the rows in ascending order of
  the numbers.\<close>

lemma insert_by_numeric_sorted:
  assumes "is_number (get x k)" and "\<forall>r\<in>set ys. is_number (get r k)"
    and "sorted (map (\<lambda>r. number_of (get r k)) ys)"
  shows "sorted (map (\<lambda>r. number_of (get r k)) (insert_by (compare_rows k Asc) x ys))"
  using assms
proof (induction ys)
  case Nil
  then show ?case by simp
next
  case (Cons y ys)
  from Cons.prems have c: "compare_rows k Asc x y = number_of (get x k) - number_of (get y k)"
    by (cases "get x k"; cases "get y k") (simp_all add: compare_rows_def Let_def)
  show ?case
  proof (cases "compare_rows k Asc x y \<le> 0")
    case True
    with c Cons.prems show ?thesis by auto
  next
    case False
    with c Cons show ?thesis by (auto simp: set_insert_by)
  qed
qed

lemma js_sort_numeric_sorted:
  assumes "\<forall>r\<in>set rs. is_number (get r k)"
  shows "sorted (map (\<lambda>r. number_of (get r k)) (js_sort (compare_rows k Asc) rs))"
  using assms
proof (induction rs)
  case Nil
  show ?case by (simp add: js_sort_def)
next
  case (Cons r rs)
  then show ?case
    by (simp add: js_sort_Cons insert_by_numeric_sorted set_js_sort)
qed

subsection \<open>C2: where the sort puts the rows without a value\<close>




subsection \<open>C9: selecting a column\<close>

lemma handleSort_twice:
  assumes "sortConfig st = \<lparr>key = Some column, direction = Asc\<rparr>"
  shows "handleSort column (handleSort column st) = st"
  using assms by (simp add: handleSort_def)

text \<open>
  C9. Selecting a column that is not the sort key makes it the key, ascending (and, the
  column name being non-empty, the rows are then sorted with the ascending comparison);
  selecting the sort key again keeps the key and flips the direction; and from a column
  sorted ascending, selecting it twice more passes through descending and comes back to
  ascending, with the same sorted rows and the same visible rows of the page as before.
\<close>

theorem handleSort_toggle:
  "(key (sortConfig st) \<noteq> Some column \<longrightarrow>
      sortConfig (handleSort column st) = \<lparr>key = Some column, direction = Asc\<rparr> \<and>
      (column \<noteq> [] \<longrightarrow>
         sortedData rs (sortConfig (handleSort column st)) = js_sort (compare_rows column Asc) rs))
   \<and> (key (sortConfig st) = Some column \<longrightarrow>
      key (sortConfig (handleSort column st)) = Some column \<and>
      direction (sortConfig (handleSort column st))
        = (if direction (sortConfig st) = Asc then Desc else Asc))
   \<and> (sortConfig st = \<lparr>key = Some column, direction = Asc\<rparr> \<longrightarrow>
      sortConfig (handleSort column st) = \<lparr>key = Some column, direction = Desc\<rparr> \<and>
      sortConfig (handleSort column (handleSort column st)) = \<lparr>key = Some column, direction = Asc\<rparr> \<and>
      sortedData rs (sortConfig (handleSort column (handleSort column st)))
        = sortedData rs (sortConfig st) \<and>
      paginatedData rs (handleSort column (handleSort column st)) = paginatedData rs st)"
proof (intro conjI impI)
  assume "sortConfig st = \<lparr>key = Some column, direction = Asc\<rparr>"
  then have "handleSort column (handleSort column st) = st"
    by (rule handleSort_twice)
  then show "sortedData rs (sortConfig (handleSort column (handleSort column st)))
        = sortedData rs (sortConfig st)"
    and "paginatedData rs (handleSort column (handleSort column st)) = paginatedData rs st"
    by simp_all
qed (simp_all add: handleSort_def sortedData_def)

text \<open>The theorem at the initial state of the table and at the state after the first
  selection of column \<^verbatim>\<open>a\<close>, on three rows of numbers.\<close>

theorem handleSort_toggle_witness:
  "key (sortConfig initial_table_state) \<noteq> Some ''a'' \<and> ''a'' \<noteq> []
   \<and> sortConfig (handleSort ''a'' initial_table_state) = \<lparr>key = Some ''a'', direction = Asc\<rparr>
   \<and> sortedData [[(''a'', JNum 3)], [(''a'', JNum 1)], [(''a'', JNum 2)]]
        (sortConfig (handleSort ''a'' initial_table_state))
      = [[(''a'', JNum 1)], [(''a'', JNum 2)], [(''a'', JNum 3)]]
   \<and> sortedData [[(''a'', JNum 3)], [(''a'', JNum 1)], [(''a'', JNum 2)]]
        (sortConfig (handleSort ''a'' (handleSort ''a'' initial_table_state)))
      = [[(''a'', JNum 3)], [(''a'', JNum 2)], [(''a'', JNum 1)]]
   \<and> paginatedData [[(''a'', JNum 3)], [(''a'', JNum 1)], [(''a'', JNum 2)]]
        (handleSort ''a'' (handleSort ''a'' (handleSort ''a'' initial_table_state)))
      = paginatedData [[(''a'', JNum 3)], [(''a'', JNum 1)], [(''a'', JNum 2)]]
          (handleSort ''a'' initial_table_state)"
proof -
  let ?rs = "[[(''a'', JNum 3)], [(''a'', JNum 1)], [(''a'', JNum 2)]]"
  let ?s1 = "handleSort ''a'' initial_table_state"
  have k: "key (sortConfig initial_table_state) \<noteq> Some ''a''"
    by (simp add: initial_table_state_def)
  have n: "''a'' \<noteq> []" by simp
  have c1: "sortConfig ?s1 = \<lparr>key = Some ''a'', direction = Asc\<rparr>"
    using handleSort_toggle [of initial_table_state "''a''" ?rs] k by blast
  have c3: "paginatedData ?rs (handleSort ''a'' (handleSort ''a'' ?s1)) = paginatedData ?rs ?s1"
    using handleSort_toggle [of ?s1 "''a''" ?rs] c1 by blast
  have c2: "sortConfig (handleSort ''a'' ?s1) = \<lparr>key = Some ''a'', direction = Desc\<rparr>"
    using handleSort_toggle [of ?s1 "''a''" ?rs] c1 by blast
  have e1: "sortedData ?rs \<lparr>key = Some ''a'', direction = Asc\<rparr>
      = [[(''a'', JNum 1)], [(''a'', JNum 2)], [(''a'', JNum 3)]]"
    by code_simp
  have e2: "sortedData ?rs \<lparr>key = Some ''a'', direction = Desc\<rparr>
      = [[(''a'', JNum 3)], [(''a'', JNum 2)], [(''a'', JNum 1)]]"
    by code_simp
  from k n c1 c2 c3 e1 e2 show ?thesis by simp
qed

subsection \<open>C6: the column set\<close>




subsection \<open>C10: the free-text filter\<close>

text \<open>
  C10, as the code has it. With a non-empty search term the filter keeps exactly the rows
  that have, under any of their own keys, a value whose string form contains the term,
  letter case ignored; the displayed columns play no part. With an empty search term the
  filter is not applied, and every row is kept.
\<close>

theorem filteredData_all_values:
  "(searchTerm st \<noteq> [] \<longrightarrow>
      filteredData rs st =
        filter (\<lambda>r. \<exists>v\<in>set (Object_values r).
                  str_includes (toLowerCase (String v)) (toLowerCase (searchTerm st)))
          (sortedData rs (sortConfig st)) \<and>
      (r \<in> set (filteredData rs st) \<longleftrightarrow>
         r \<in> set rs \<and> (\<exists>(k, v)\<in>set r.
            str_includes (toLowerCase (String v)) (toLowerCase (searchTerm st)))))
   \<and> (searchTerm st = [] \<longrightarrow> filteredData rs st = sortedData rs (sortConfig st))"
proof -
  have s: "set (sortedData rs (sortConfig st)) = set rs"
    by (simp add: sortedData_def set_js_sort split: option.split)
  have m: "row_matches q r' \<longleftrightarrow>
      (\<exists>v\<in>set (Object_values r'). str_includes (toLowerCase (String v)) (toLowerCase q))" for q r'
    by (simp add: row_matches_def list_ex_iff)
  have v: "(\<exists>v\<in>set (Object_values r). P v) \<longleftrightarrow> (\<exists>(k, v)\<in>set r. P v)" for P
    by (auto simp: Object_values_def) force
  show ?thesis
    using s by (auto simp add: filteredData_def m v cong: filter_cong)
qed

text \<open>The theorem at two rows of which only the second has key \<^verbatim>\<open>b\<close>: with the term
  \<^verbatim>\<open>zE\<close> the second row stays, for its value \<^verbatim>\<open>Zed\<close> under \<^verbatim>\<open>b\<close>, although the only
  displayed column is \<^verbatim>\<open>a\<close> and its value there does not contain the term; with the empty
  term both rows stay.\<close>

theorem filteredData_all_values_witness:
  "searchTerm (initial_table_state\<lparr>searchTerm := ''zE''\<rparr>) \<noteq> []
   \<and> searchTerm initial_table_state = []
   \<and> filteredData [[(''a'', JNum 1)], [(''a'', JNum 2), (''b'', JStr ''Zed'')]]
        (initial_table_state\<lparr>searchTerm := ''zE''\<rparr>)
      = [[(''a'', JNum 2), (''b'', JStr ''Zed'')]]
   \<and> columns [[(''a'', JNum 1)], [(''a'', JNum 2), (''b'', JStr ''Zed'')]] = [''a'']
   \<and> \<not> str_includes (toLowerCase (String (get [(''a'', JNum 2), (''b'', JStr ''Zed'')] ''a'')))
          (toLowerCase ''zE'')
   \<and> filteredData [[(''a'', JNum 1)], [(''a'', JNum 2), (''b'', JStr ''Zed'')]] initial_table_state
      = [[(''a'', JNum 1)], [(''a'', JNum 2), (''b'', JStr ''Zed'')]]"
proof -
  let ?rs = "[[(''a'', JNum 1)], [(''a'', JNum 2), (''b'', JStr ''Zed'')]]"
  let ?st = "initial_table_state\<lparr>searchTerm := ''zE''\<rparr>"
  have h1: "searchTerm ?st \<noteq> []" by simp
  have h2: "searchTerm initial_table_state = []" by (simp add: initial_table_state_def)
  have a: "filteredData ?rs ?st =
        filter (\<lambda>r. \<exists>v\<in>set (Object_values r).
                  str_includes (toLowerCase (String v)) (toLowerCase (searchTerm ?st)))
          (sortedData ?rs (sortConfig ?st))"
    using filteredData_all_values [of ?st ?rs "[]"] h1 by blast
  have b: "filteredData ?rs initial_table_state = sortedData ?rs (sortConfig initial_table_state)"
    using filteredData_all_values [of initial_table_state ?rs "[]"] h2 by blast
  have e1: "filteredData ?rs ?st = [[(''a'', JNum 2), (''b'', JStr ''Zed'')]]"
    by code_simp
  have e2: "\<not> str_includes (toLowerCase (String (get [(''a'', JNum 2), (''b'', JStr ''Zed'')] ''a'')))
          (toLowerCase ''zE'')"
    by code_simp
  have e3: "sortedData ?rs (sortConfig initial_table_state) = ?rs"
    by (simp add: sortedData_def initial_table_state_def)
  from h1 h2 a b e1 e2 e3 show ?thesis
    by (simp add: Object_keys_def)
qed

text \<open>C10 read for every search term fails at the empty one: the row \<^verbatim>\<open>{}\<close> is kept,
  and it has no value that could contain the term.\<close>

theorem filteredData_empty_term_keeps_empty_row:
  "[] \<in> set (filteredData [[(''a'', JNum 1)], []] initial_table_state)
   \<and> \<not> row_matches (searchTerm initial_table_state) []"
  by (simp add: filteredData_def sortedData_def initial_table_state_def row_matches_def
      Object_values_def)

section \<open>Properties of the page\<close>

subsection \<open>C1: the assistant message of a payload object\<close>

lemma get_absent: "k \<notin> set (Object_keys r) \<Longrightarrow> get r k = JUndefined"
proof -
  assume "k \<notin> set (Object_keys r)"
  then have "map_of r k = None"
    by (simp add: Object_keys_def map_of_eq_None_iff)
  then show ?thesis by (simp add: get_def)
qed

text \<open>
  C1. For every payload that is a JSON object, down to \<^verbatim>\<open>{}\<close>, building the assistant
  message does not throw and gives one message of role assistant; when the payload has
  no \<^verbatim>\<open>message\<close> the text is the fallback string of the branch taken, when it has no
  \<^verbatim>\<open>execution_time\<close> the time is \<^verbatim>\<open>0\<close>, and when it has no \<^verbatim>\<open>workflow_steps\<close> the
  steps are the empty array.
\<close>

theorem build_aiMessage_total:
  "\<exists>m. build_aiMessage now (JObj r) = Inr m
     \<and> role (Assistant m) = ''assistant''
     \<and> (''message'' \<notin> set (Object_keys r) \<longrightarrow>
          message m =
            JStr (if truthy (get r ''success'') \<and> truthy (get r ''resolvable'')
                  then ''Here is the result of your query:''
                  else if truthy (get r ''success'')
                  then ''I couldn't resolve that query with the available data.''
                  else ''Sorry, I encountered an error while processing your request.''))
     \<and> (''execution_time'' \<notin> set (Object_keys r) \<longrightarrow> execution_time m = JNum 0)
     \<and> (''workflow_steps'' \<notin> set (Object_keys r) \<longrightarrow> workflow_steps m = JArr [])"
proof -
  have m: "js_or (get r ''message'') d = d" if "''message'' \<notin> set (Object_keys r)" for d
    using that by (simp add: get_absent js_or_def)
  have e: "js_or (get r ''execution_time'') d = d" if "''execution_time'' \<notin> set (Object_keys r)" for d
    using that by (simp add: get_absent js_or_def)
  have w: "js_or (get r ''workflow_steps'') d = d" if "''workflow_steps'' \<notin> set (Object_keys r)" for d
    using that by (simp add: get_absent js_or_def)
  show ?thesis
    by (simp add: build_aiMessage_def m e w)
qed

text \<open>The theorem at the empty object.\<close>

theorem build_aiMessage_total_witness:
  "''message'' \<notin> set (Object_keys []) \<and> ''execution_time'' \<notin> set (Object_keys [])
   \<and> ''workflow_steps'' \<notin> set (Object_keys [])
   \<and> build_aiMessage ''t'' (JObj []) =
       Inr \<lparr>message = JStr ''Sorry, I encountered an error while processing your request.'',
            timestamp = ''t'', resolvable = False, result_type = JNull, query = JStr [],
            chart_data = JNull, result = JNull, workflow_steps = JArr [],
            execution_time = JNum 0\<rparr>"
proof -
  have h: "''message'' \<notin> set (Object_keys [])" "''execution_time'' \<notin> set (Object_keys [])"
    "''workflow_steps'' \<notin> set (Object_keys [])"
    by (simp_all add: Object_keys_def)
  obtain m where b: "build_aiMessage ''t'' (JObj []) = Inr m"
    and f: "message m = JStr ''Sorry, I encountered an error while processing your request.''"
      "execution_time m = JNum 0" "workflow_steps m = JArr []"
    using build_aiMessage_total [of "''t''" "[]"] h by (auto simp: get_def)
  have "build_aiMessage ''t'' (JObj []) =
       Inr \<lparr>message = JStr ''Sorry, I encountered an error while processing your request.'',
            timestamp = ''t'', resolvable = False, result_type = JNull, query = JStr [],
            chart_data = JNull, result = JNull, workflow_steps = JArr [],
            execution_time = JNum 0\<rparr>"
    by (simp add: build_aiMessage_def get_def js_or_def)
  with h show ?thesis by simp
qed

subsection \<open>C3: the result type of a resolvable answer\<close>

text \<open>
  C3, as the code has it. For a payload with truthy \<^verbatim>\<open>success\<close> and \<^verbatim>\<open>resolvable\<close>, the
  message's \<^verbatim>\<open>result_type\<close> is the payload's own \<^verbatim>\<open>result_type\<close> when that is truthy,
  and \<^verbatim>\<open>unknown\<close> otherwise; no result descriptor is inspected, so the type is
  \<^verbatim>\<open>summary\<close> exactly when the payload says so.
\<close>

theorem build_aiMessage_result_type:
  assumes "\<not> eq_null payload"
    and "truthy (payload_prop payload ''success'')"
    and "truthy (payload_prop payload ''resolvable'')"
  shows "\<exists>m. build_aiMessage now payload = Inr m
     \<and> result_type m =
         (if truthy (payload_prop payload ''result_type'')
          then payload_prop payload ''result_type'' else JStr ''unknown'')
     \<and> (result_type m = JStr ''summary'' \<longleftrightarrow>
          payload_prop payload ''result_type'' = JStr ''summary'')"
  using assms by (auto simp: build_aiMessage_def js_or_def)

text \<open>The theorem at a payload that names its result type \<^verbatim>\<open>summary\<close>.\<close>

theorem build_aiMessage_result_type_witness:
  "\<not> eq_null (JObj [(''success'', JBool True), (''resolvable'', JBool True),
        (''message'', JStr ''Done''), (''result_type'', JStr ''summary'')])
   \<and> truthy (payload_prop (JObj [(''success'', JBool True), (''resolvable'', JBool True),
        (''message'', JStr ''Done''), (''result_type'', JStr ''summary'')]) ''success'')
   \<and> truthy (payload_prop (JObj [(''success'', JBool True), (''resolvable'', JBool True),
        (''message'', JStr ''Done''), (''result_type'', JStr ''summary'')]) ''resolvable'')
   \<and> (\<exists>m. build_aiMessage ''t'' (JObj [(''success'', JBool True), (''resolvable'', JBool True),
        (''message'', JStr ''Done''), (''result_type'', JStr ''summary'')]) = Inr m
        \<and> result_type m = JStr ''summary'')"
proof -
  let ?p = "JObj [(''success'', JBool True), (''resolvable'', JBool True),
        (''message'', JStr ''Done''), (''result_type'', JStr ''summary'')]"
  have h1: "\<not> eq_null ?p" by simp
  have h2: "truthy (payload_prop ?p ''success'')" by (simp add: get_def)
  have h3: "truthy (payload_prop ?p ''resolvable'')" by (simp add: get_def)
  have r: "payload_prop ?p ''result_type'' = JStr ''summary''" by (simp add: get_def)
  from build_aiMessage_result_type [OF h1 h2 h3, of "''t''"] r
  have "\<exists>m. build_aiMessage ''t'' ?p = Inr m \<and> result_type m = JStr ''summary''"
    by auto
  with h1 h2 h3 show ?thesis by blast
qed

text \<open>C3 as the specification states it fails: a successful, resolvable payload with a
  textual message and no chart, table or text descriptor gets the result type
  \<^verbatim>\<open>unknown\<close>, not \<^verbatim>\<open>summary\<close>.\<close>

theorem build_aiMessage_unknown_not_summary:
  "build_aiMessage ''t'' (JObj [(''success'', JBool True), (''resolvable'', JBool True),
        (''message'', JStr ''Done'')]) =
     Inr \<lparr>message = JStr ''Done'', timestamp = ''t'', resolvable = True,
          result_type = JStr ''unknown'', query = JStr [], chart_data = JNull, result = JNull,
          workflow_steps = JArr [], execution_time = JNum 0\<rparr>
   \<and> JStr ''unknown'' \<noteq> JStr ''summary''"
  by (simp add: build_aiMessage_def get_def js_or_def)

subsection \<open>The chat that a submission writes to\<close>

text \<open>
  The handler finds its chat by id, and so do these lemmas: \<open>find_chat\<close> gives the first
  chat of the history with the id. A chat opened while the request is outstanding goes
  to the front of the history; its id is a fresh reading of the clock, so it is not the
  id of the chat that the handler writes to.
\<close>

lemma find_map_if:
  assumes "\<And>x. P x \<Longrightarrow> P (f x)"
  shows "find P (map (\<lambda>x. if P x then f x else x) xs) = map_option f (find P xs)"
  using assms by (induction xs) simp_all

lemma find_chat_append_message:
  "find_chat cid (append_message cid m h) =
     map_option (\<lambda>c. c\<lparr>messages := messages c @ [m]\<rparr>) (find_chat cid h)"
  unfolding find_chat_def append_message_def
  by (rule find_map_if) simp

lemma find_chat_set_title:
  "find_chat cid (set_title cid content h) =
     map_option (\<lambda>c. c\<lparr>title := first_title content\<rparr>) (find_chat cid h)"
  unfolding find_chat_def set_title_def first_title_def
  by (rule find_map_if) simp

lemma find_chat_ui_step:
  "e \<noteq> NewChat cid \<Longrightarrow> find_chat cid (chatHistory (ui_step s e)) = find_chat cid (chatHistory s)"
  by (cases e) (auto simp: find_chat_def handleNewChat_def)

lemma find_chat_foldl_ui_step:
  "\<forall>e\<in>set evs. e \<noteq> NewChat cid \<Longrightarrow>
     find_chat cid (chatHistory (foldl ui_step s evs)) = find_chat cid (chatHistory s)"
  by (induction evs arbitrary: s) (simp_all add: find_chat_ui_step)

lemma chatHistory_settle:
  "chatHistory (handleSendMessage_settle now cid res s) =
     append_message cid (Assistant (reply now res)) (chatHistory s)"
  by (simp add: handleSendMessage_settle_def try_block_def reply_def
      split: fetch_result.split response_body.split sum.split)

lemma isLoading_settle: "\<not> isLoading (handleSendMessage_settle now cid res s)"
  by (simp add: handleSendMessage_settle_def)

lemma find_chat_begin:
  assumes "find_chat (currentChatId s) (chatHistory s) = Some c"
  shows "find_chat (currentChatId s) (chatHistory (handleSendMessage_begin now content s)) =
     Some (c\<lparr>title := (if messages c = [] then first_title content else title c),
             messages := messages c @ [User content now]\<rparr>)"
  using assms
  by (simp add: handleSendMessage_begin_def Let_def find_chat_set_title find_chat_append_message)

lemma handleSendMessage_thread:
  assumes "find_chat (currentChatId s) (chatHistory s) = Some c"
    and "currentChatId s \<noteq> []"
    and "\<forall>e\<in>set evs. e \<noteq> NewChat (currentChatId s)"
  shows "find_chat (currentChatId s) (chatHistory (handleSendMessage now now' res evs content s)) =
     Some (c\<lparr>title := (if messages c = [] then first_title content else title c),
             messages := messages c @ [User content now, Assistant (reply now' res)]\<rparr>)"
  using assms
  by (simp add: handleSendMessage_def chatHistory_settle find_chat_append_message
      find_chat_foldl_ui_step find_chat_begin)

lemma initial_page_find_chat: "find_chat (currentChatId initial_page) (chatHistory initial_page)
    = Some \<lparr>chat_id = ''1'', title = ''DataWare Assistant'', messages = []\<rparr>"
  by (simp add: initial_page_def find_chat_def)

lemma trim_example: "trim '' Total sales by region and by quarter? ''
    = ''Total sales by region and by quarter?''"
  by code_simp

subsection \<open>C4: the message of a network-level failure\<close>

lemma reply_network_failure: "network_failure res \<Longrightarrow> reply now res = errorMessage now"
  by (cases res) (auto simp: reply_def)

lemma errorMessage_names_port:
  "str_includes ''Sorry, I couldn't connect to the backend service. Please make sure the query generation service is running on port 5001.'' ''port 5001''"
  by code_simp

text \<open>
  C4. When the request of a submission ends in a network-level failure (the request
  threw, the status is not 2xx, or the body is not JSON), the chat of the submission
  gets, after the user message, one assistant message with \<^verbatim>\<open>resolvable\<close> false, no
  result type (\<^verbatim>\<open>null\<close>) and the fixed text that names port 5001.
\<close>

theorem network_failure_message:
  assumes "network_failure res"
    and "find_chat (currentChatId s) (chatHistory s) = Some c"
    and "currentChatId s \<noteq> []"
    and "\<forall>e\<in>set evs. e \<noteq> NewChat (currentChatId s)"
  shows "\<exists>c' m. find_chat (currentChatId s)
                  (chatHistory (handleSendMessage now now' res evs content s)) = Some c'
     \<and> messages c' = messages c @ [User content now, Assistant m]
     \<and> resolvable m = False
     \<and> result_type m = JNull
     \<and> message m = JStr ''Sorry, I couldn't connect to the backend service. Please make sure the query generation service is running on port 5001.''
     \<and> str_includes (String (message m)) ''port 5001''"
proof -
  from assms(1) have r: "reply now' res = errorMessage now'"
    by (rule reply_network_failure)
  have "find_chat (currentChatId s) (chatHistory (handleSendMessage now now' res evs content s)) =
     Some (c\<lparr>title := (if messages c = [] then first_title content else title c),
             messages := messages c @ [User content now, Assistant (errorMessage now')]\<rparr>)"
    using handleSendMessage_thread [OF assms(2,3,4), of now now' res content] r by simp
  moreover have "resolvable (errorMessage now') = False" "result_type (errorMessage now') = JNull"
    "message (errorMessage now') = JStr ''Sorry, I couldn't connect to the backend service. Please make sure the query generation service is running on port 5001.''"
    by (simp_all add: errorMessage_def)
  ultimately show ?thesis
    using errorMessage_names_port by auto
qed

text \<open>The theorem at a response with status 500, on the default chat.\<close>

theorem network_failure_message_witness:
  "network_failure (Response 500 (Parsed (JObj [])))
   \<and> find_chat (currentChatId initial_page) (chatHistory initial_page)
       = Some \<lparr>chat_id = ''1'', title = ''DataWare Assistant'', messages = []\<rparr>
   \<and> currentChatId initial_page \<noteq> []
   \<and> SelectChat ''1'' \<noteq> NewChat (currentChatId initial_page)
   \<and> (\<exists>c' m. find_chat (currentChatId initial_page)
                  (chatHistory (handleSendMessage ''t1'' ''t2'' (Response 500 (Parsed (JObj [])))
                     [SelectChat ''1''] ''Sales?'' initial_page)) = Some c'
        \<and> messages c' = [User ''Sales?'' ''t1'', Assistant m]
        \<and> resolvable m = False \<and> result_type m = JNull
        \<and> str_includes (String (message m)) ''port 5001'')"
proof -
  have h1: "network_failure (Response 500 (Parsed (JObj [])))"
    by (simp add: response_ok_def)
  have h3: "currentChatId initial_page \<noteq> []" by (simp add: initial_page_def)
  have h4: "\<forall>e\<in>set [SelectChat ''1'']. e \<noteq> NewChat (currentChatId initial_page)" by simp
  from network_failure_message [OF h1 initial_page_find_chat h3 h4, of "''t1''" "''t2''" "''Sales?''"]
  have "\<exists>c' m. find_chat (currentChatId initial_page)
                  (chatHistory (handleSendMessage ''t1'' ''t2'' (Response 500 (Parsed (JObj [])))
                     [SelectChat ''1''] ''Sales?'' initial_page)) = Some c'
        \<and> messages c' = [User ''Sales?'' ''t1'', Assistant m]
        \<and> resolvable m = False \<and> result_type m = JNull
        \<and> str_includes (String (message m)) ''port 5001''"
    by auto
  with h1 initial_page_find_chat h3 h4 show ?thesis by simp
qed

subsection \<open>C5: one assistant message for every submission\<close>

text \<open>
  C5. A submission that \<^verbatim>\<open>handleSubmit\<close> accepts (the trimmed input is not empty, no
  request is outstanding), in a page whose current chat exists, ends with the chat of
  the submission holding its former messages, then the user message, then exactly one
  assistant message, whatever the outcome of the request and whatever chats were opened
  or selected meanwhile; and \<^verbatim>\<open>isLoading\<close> is down again.
\<close>

theorem handleSubmit_one_reply:
  assumes "trim (input s) \<noteq> []" and "\<not> isLoading s"
    and "find_chat (currentChatId s) (chatHistory s) = Some c"
    and "currentChatId s \<noteq> []"
    and "\<forall>e\<in>set evs. e \<noteq> NewChat (currentChatId s)"
  shows "\<exists>c' m. find_chat (currentChatId s) (chatHistory (handleSubmit now now' res evs s)) = Some c'
     \<and> messages c' = messages c @ [User (trim (input s)) now, Assistant m]
     \<and> m = reply now' res
     \<and> role (Assistant m) = ''assistant''
     \<and> \<not> isLoading (handleSubmit now now' res evs s)"
proof -
  have "find_chat (currentChatId s)
          (chatHistory (handleSendMessage now now' res evs (trim (input s)) s)) =
     Some (c\<lparr>title := (if messages c = [] then first_title (trim (input s)) else title c),
             messages := messages c @ [User (trim (input s)) now, Assistant (reply now' res)]\<rparr>)"
    by (rule handleSendMessage_thread [OF assms(3,4,5)])
  moreover have "\<not> isLoading (handleSendMessage now now' res evs (trim (input s)) s)"
    using assms(4) by (simp add: handleSendMessage_def isLoading_settle)
  ultimately show ?thesis
    using assms(1,2) by (simp add: handleSubmit_def)
qed

text \<open>The theorem at a request that threw, with a new chat opened meanwhile.\<close>

theorem handleSubmit_one_reply_witness:
  "trim (input (initial_page\<lparr>input := '' Total sales by region and by quarter? ''\<rparr>)) \<noteq> []
   \<and> \<not> isLoading (initial_page\<lparr>input := '' Total sales by region and by quarter? ''\<rparr>)
   \<and> find_chat ''1'' (chatHistory (initial_page\<lparr>input := '' Total sales by region and by quarter? ''\<rparr>))
       = Some \<lparr>chat_id = ''1'', title = ''DataWare Assistant'', messages = []\<rparr>
   \<and> ''1'' \<noteq> []
   \<and> NewChat ''2'' \<noteq> NewChat ''1''
   \<and> (\<exists>c'. find_chat ''1''
               (chatHistory (handleSubmit ''t1'' ''t2'' Rejected [NewChat ''2'']
                  (initial_page\<lparr>input := '' Total sales by region and by quarter? ''\<rparr>))) = Some c'
        \<and> messages c' = [User ''Total sales by region and by quarter?'' ''t1'',
                          Assistant (reply ''t2'' Rejected)])
   \<and> \<not> isLoading (handleSubmit ''t1'' ''t2'' Rejected [NewChat ''2'']
                  (initial_page\<lparr>input := '' Total sales by region and by quarter? ''\<rparr>))"
proof -
  let ?s = "initial_page\<lparr>input := '' Total sales by region and by quarter? ''\<rparr>"
  have c: "currentChatId ?s = ''1''" by (simp add: initial_page_def)
  have h1: "trim (input ?s) \<noteq> []" by (simp add: trim_example)
  have h2: "\<not> isLoading ?s" by (simp add: initial_page_def)
  have h3: "find_chat (currentChatId ?s) (chatHistory ?s)
       = Some \<lparr>chat_id = ''1'', title = ''DataWare Assistant'', messages = []\<rparr>"
    by (simp add: initial_page_def find_chat_def)
  have h4: "currentChatId ?s \<noteq> []" by (simp add: c)
  have h5: "\<forall>e\<in>set [NewChat ''2'']. e \<noteq> NewChat (currentChatId ?s)" by (simp add: c)
  from handleSubmit_one_reply [OF h1 h2 h3 h4 h5, of "''t1''" "''t2''" Rejected]
  have "(\<exists>c'. find_chat ''1'' (chatHistory (handleSubmit ''t1'' ''t2'' Rejected [NewChat ''2''] ?s)) = Some c'
        \<and> messages c' = [User ''Total sales by region and by quarter?'' ''t1'',
                          Assistant (reply ''t2'' Rejected)])
     \<and> \<not> isLoading (handleSubmit ''t1'' ''t2'' Rejected [NewChat ''2''] ?s)"
    by (auto simp: c trim_example)
  with h1 h2 h3 h4 h5 show ?thesis by (simp add: c)
qed

subsection \<open>C8: the title of a chat\<close>

text \<open>
  C8. A submission sets the title of its chat if and only if the chat had no message:
  the title is then the first 30 characters of the message, followed by \<^verbatim>\<open>...\<close> exactly
  when the message is longer; otherwise the title stays. After a submission the chat has
  messages, so a later submission to it leaves the title as the first one set it.
\<close>

theorem title_set_by_first_message:
  assumes "find_chat (currentChatId s) (chatHistory s) = Some c"
    and "currentChatId s \<noteq> []"
    and "\<forall>e\<in>set evs. e \<noteq> NewChat (currentChatId s)"
    and "\<forall>e\<in>set evs2. e \<noteq> NewChat (currentChatId s)"
  shows "\<exists>c' c''.
       find_chat (currentChatId s)
         (chatHistory (handleSendMessage now now' res evs content s)) = Some c'
     \<and> title c' =
         (if messages c = []
          then take 30 content @ (if 30 < length content then ''...'' else [])
          else title c)
     \<and> messages c' \<noteq> []
     \<and> find_chat (currentChatId s)
         (chatHistory (handleSendMessage now2 now2' res2 evs2 content2
            ((handleSendMessage now now' res evs content s)\<lparr>currentChatId := currentChatId s\<rparr>)))
         = Some c''
     \<and> title c'' = title c'"
proof -
  let ?cid = "currentChatId s"
  let ?s1 = "handleSendMessage now now' res evs content s"
  let ?c1 = "c\<lparr>title := (if messages c = [] then first_title content else title c),
             messages := messages c @ [User content now, Assistant (reply now' res)]\<rparr>"
  let ?t1 = "?s1\<lparr>currentChatId := ?cid\<rparr>"
  have 1: "find_chat ?cid (chatHistory ?s1) = Some ?c1"
    by (rule handleSendMessage_thread [OF assms(1,2,3)])
  then have a: "find_chat (currentChatId ?t1) (chatHistory ?t1) = Some ?c1" by simp
  have b: "currentChatId ?t1 \<noteq> []" using assms(2) by simp
  have c: "\<forall>e\<in>set evs2. e \<noteq> NewChat (currentChatId ?t1)" using assms(4) by simp
  have 2: "find_chat (currentChatId ?t1)
         (chatHistory (handleSendMessage now2 now2' res2 evs2 content2 ?t1)) =
       Some (?c1\<lparr>title := (if messages ?c1 = [] then first_title content2 else title ?c1),
             messages := messages ?c1 @ [User content2 now2, Assistant (reply now2' res2)]\<rparr>)"
    by (rule handleSendMessage_thread [OF a b c])
  from 1 2 show ?thesis
    by (simp add: first_title_def)
qed

text \<open>The theorem at a first message of 37 characters on the default chat, and a second
  message to the same chat.\<close>

theorem title_set_by_first_message_witness:
  "find_chat (currentChatId initial_page) (chatHistory initial_page)
       = Some \<lparr>chat_id = ''1'', title = ''DataWare Assistant'', messages = []\<rparr>
   \<and> currentChatId initial_page \<noteq> []
   \<and> NewChat ''2'' \<noteq> NewChat (currentChatId initial_page)
   \<and> SelectChat ''1'' \<noteq> NewChat (currentChatId initial_page)
   \<and> (\<exists>c' c''.
       find_chat (currentChatId initial_page)
         (chatHistory (handleSendMessage ''t1'' ''t2'' Rejected [NewChat ''2'']
            ''Total sales by region and by quarter?'' initial_page)) = Some c'
     \<and> title c' = ''Total sales by region and by q...''
     \<and> find_chat (currentChatId initial_page)
         (chatHistory (handleSendMessage ''t3'' ''t4'' Rejected [SelectChat ''1''] ''And by month?''
            ((handleSendMessage ''t1'' ''t2'' Rejected [NewChat ''2'']
               ''Total sales by region and by quarter?'' initial_page)
             \<lparr>currentChatId := currentChatId initial_page\<rparr>)))
         = Some c''
     \<and> title c'' = ''Total sales by region and by q...'')"
proof -
  have h2: "currentChatId initial_page \<noteq> []" by (simp add: initial_page_def)
  have h3: "\<forall>e\<in>set [NewChat ''2'']. e \<noteq> NewChat (currentChatId initial_page)"
    by (simp add: initial_page_def)
  have h4: "\<forall>e\<in>set [SelectChat ''1'']. e \<noteq> NewChat (currentChatId initial_page)" by simp
  from title_set_by_first_message [OF initial_page_find_chat h2 h3 h4,
      of "''t1''" "''t2''" Rejected "''Total sales by region and by quarter?''"
         "''t3''" "''t4''" Rejected "''And by month?''"]
  have "\<exists>c' c''.
       find_chat (currentChatId initial_page)
         (chatHistory (handleSendMessage ''t1'' ''t2'' Rejected [NewChat ''2'']
            ''Total sales by region and by quarter?'' initial_page)) = Some c'
     \<and> title c' = ''Total sales by region and by q...''
     \<and> find_chat (currentChatId initial_page)
         (chatHistory (handleSendMessage ''t3'' ''t4'' Rejected [SelectChat ''1''] ''And by month?''
            ((handleSendMessage ''t1'' ''t2'' Rejected [NewChat ''2'']
               ''Total sales by region and by quarter?'' initial_page)
             \<lparr>currentChatId := currentChatId initial_page\<rparr>)))
         = Some c''
     \<and> title c'' = ''Total sales by region and by q...''"
    by auto
  with initial_page_find_chat h2 h3 h4 show ?thesis by simp
qed

subsection \<open>C7: the reveal of an assistant message\<close>

text \<open>
  A message is typing while \<^verbatim>\<open>messageDone\<close> is false and revealed once it is true. The
  text always has at least one word (the empty text has one, empty, word), each run of
  the effect shows one more word, and the run after the last word completes.
\<close>

lemma split_space_nonempty: "split_space s \<noteq> []"
  by (induction s) (auto split: list.split)






lemma typing_text_nonempty: "typing_text m = Inr text \<Longrightarrow> text \<noteq> []"
  by (cases "message m") (auto simp: typing_text_def split: if_splits)



end
